theory Spec2Isabelle
  imports Main
begin

section \<open>JavaScript values\<close>

text \<open>
  The values that travel between the store client and \<open>lib/RateLimiterRedis.js\<close>:
  \<open>undefined\<close>, \<open>null\<close>, numbers, strings, arrays and \<open>Error\<close> objects. Numbers are
  integers and \<open>NaN\<close>; the code never produces a fraction from integer inputs.

  A JavaScript number is a double: \<open>JNum n\<close> stands for one, and the arithmetic and
  printing below are those of JavaScript, only while \<open>n\<close> is a safe integer (at most
  \<open>Number.MAX_SAFE_INTEGER\<close> in size). Beyond that a double rounds, and from \<open>1e21\<close> on
  it prints with an exponent; the model does not follow it there. The statements that
  compute with the points, the totals, the quota or the duration therefore assume
  \<open>safe_int\<close> of them.
\<close>

datatype jsval =
    JUndefined
  | JNull
  | JNum int
  | JNaN
  | JStr string
  | JArr "jsval list"
  | JErr string

definition MAX_SAFE_INTEGER :: int where
  "MAX_SAFE_INTEGER = 2 ^ 53 - 1"

definition safe_int :: "int \<Rightarrow> bool" where
  "safe_int n = (- MAX_SAFE_INTEGER \<le> n \<and> n \<le> MAX_SAFE_INTEGER)"

text \<open>
  The numbers of one result are exact: the quota, the consumed points, and their
  difference, from which \<open>remainingPoints\<close> is computed.
\<close>

definition exact_result :: "int \<Rightarrow> int \<Rightarrow> bool" where
  "exact_result quota consumed = (safe_int quota \<and> safe_int consumed \<and> safe_int (quota - consumed))"

text \<open>Truthiness, as used by \<open>if (this.client.status && ...)\<close> and by \<open>!!x\<close>.\<close>

fun js_truthy :: "jsval \<Rightarrow> bool" where
  "js_truthy JUndefined = False"
| "js_truthy JNull = False"
| "js_truthy (JNum n) = (n \<noteq> 0)"
| "js_truthy JNaN = False"
| "js_truthy (JStr s) = (s \<noteq> [])"
| "js_truthy (JArr xs) = True"
| "js_truthy (JErr m) = True"

text \<open>\<open>Array.isArray(x)\<close>.\<close>

fun isArray :: "jsval \<Rightarrow> bool" where
  "isArray (JArr xs) = True"
| "isArray v = False"

text \<open>
  Array destructuring \<open>[a, b] = x\<close> iterates \<open>x\<close>: an array yields its elements, a
  string its characters, and anything else is not iterable (a \<open>TypeError\<close>, here \<open>None\<close>).
  A position past the end reads as \<open>undefined\<close>.
\<close>

fun js_iter :: "jsval \<Rightarrow> jsval list option" where
  "js_iter (JArr xs) = Some xs"
| "js_iter (JStr s) = Some (map (\<lambda>c. JStr [c]) s)"
| "js_iter v = None"

fun js_nth :: "jsval list \<Rightarrow> nat \<Rightarrow> jsval" where
  "js_nth [] i = JUndefined"
| "js_nth (x # xs) 0 = x"
| "js_nth (x # xs) (Suc i) = js_nth xs i"

subsection \<open>Number to string and \<open>parseInt\<close>\<close>

definition digit_char :: "nat \<Rightarrow> char" where
  "digit_char d = char_of (48 + d)"

function digits_of :: "nat \<Rightarrow> string" where
  "digits_of n = (if n < 10 then [digit_char n] else digits_of (n div 10) @ [digit_char (n mod 10)])"
  by pat_completeness auto
termination
  by (relation "measure (\<lambda>n. n)") auto

declare digits_of.simps [simp del]

definition show_int :: "int \<Rightarrow> string" where
  "show_int n = (if n < 0 then CHR ''-'' # digits_of (nat (- n)) else digits_of (nat n))"

fun js_join :: "string list \<Rightarrow> string" where
  "js_join [] = []"
| "js_join [s] = s"
| "js_join (s # t # ss) = s @ CHR '','' # js_join (t # ss)"

text \<open>
  \<open>String(x)\<close>. Inside an array, \<open>null\<close> and \<open>undefined\<close> print as the empty string.
\<close>

fun js_to_string :: "jsval \<Rightarrow> string" where
  "js_to_string JUndefined = ''undefined''"
| "js_to_string JNull = ''null''"
| "js_to_string (JNum n) = show_int n"
| "js_to_string JNaN = ''NaN''"
| "js_to_string (JStr s) = s"
| "js_to_string (JArr xs) =
     js_join (map (\<lambda>x. if x = JUndefined \<or> x = JNull then [] else js_to_string x) xs)"
| "js_to_string (JErr m) = ''Error: '' @ m"

definition is_js_space :: "char \<Rightarrow> bool" where
  "is_js_space c = (let n = (of_char c :: nat) in n = 32 \<or> (9 \<le> n \<and> n \<le> 13))"

text \<open>The value of a character as a digit in some radix up to 36.\<close>

definition digit_val :: "char \<Rightarrow> nat option" where
  "digit_val c =
     (let n = (of_char c :: nat) in
      if 48 \<le> n \<and> n \<le> 57 then Some (n - 48)
      else if 97 \<le> n \<and> n \<le> 122 then Some (n - 87)
      else if 65 \<le> n \<and> n \<le> 90 then Some (n - 55)
      else None)"

definition is_digit_in :: "nat \<Rightarrow> char \<Rightarrow> bool" where
  "is_digit_in radix c = (case digit_val c of None \<Rightarrow> False | Some d \<Rightarrow> d < radix)"

definition digits_value :: "nat \<Rightarrow> string \<Rightarrow> nat" where
  "digits_value radix ds = foldl (\<lambda>acc c. acc * radix + (case digit_val c of None \<Rightarrow> 0 | Some d \<Rightarrow> d)) 0 ds"

text \<open>
  \<open>parseInt(x)\<close> with no radix argument: the argument is turned into a string, leading
  white space is skipped, a sign is read, a \<open>0x\<close> prefix selects radix 16, and the longest
  prefix of digits is the value; with no digit at all the result is \<open>NaN\<close>.
\<close>

definition parse_digits :: "bool \<Rightarrow> string \<Rightarrow> jsval" where
  "parse_digits neg s =
     (let (radix, body) =
            (case s of
               c0 # c1 # rest \<Rightarrow>
                 if c0 = CHR ''0'' \<and> (c1 = CHR ''x'' \<or> c1 = CHR ''X'') then (16, rest) else (10, s)
             | _ \<Rightarrow> (10, s));
          ds = takeWhile (is_digit_in radix) body
      in if ds = [] then JNaN
         else JNum (if neg then - int (digits_value radix ds) else int (digits_value radix ds)))"

definition parseInt :: "jsval \<Rightarrow> jsval" where
  "parseInt x =
     (case dropWhile is_js_space (js_to_string x) of
        [] \<Rightarrow> JNaN
      | c # cs \<Rightarrow>
          if c = CHR ''-'' then parse_digits True cs
          else if c = CHR ''+'' then parse_digits False cs
          else parse_digits False (c # cs))"

subsection \<open>Arithmetic on numbers\<close>

text \<open>\<open>a - b\<close> and \<open>Math.max(a, b)\<close> on numbers: \<open>NaN\<close> is contagious.\<close>

fun js_sub :: "jsval \<Rightarrow> jsval \<Rightarrow> jsval" where
  "js_sub (JNum a) (JNum b) = JNum (a - b)"
| "js_sub a b = JNaN"

fun js_max :: "jsval \<Rightarrow> jsval \<Rightarrow> jsval" where
  "js_max (JNum a) (JNum b) = JNum (max a b)"
| "js_max a b = JNaN"

text \<open>
  \<open>a === b\<close> where \<open>b\<close> is a number: true exactly when \<open>a\<close> is the same number;
  \<open>NaN\<close> equals nothing.
\<close>

fun js_strict_eq_num :: "jsval \<Rightarrow> int \<Rightarrow> bool" where
  "js_strict_eq_num (JNum a) b = (a = b)"
| "js_strict_eq_num a b = False"

section \<open>The result object and the reply normalizer\<close>

text \<open>
  Modelled from the spec: the class \<open>RateLimiterRes\<close> (\<open>lib/RateLimiterRes.js\<close>) is not
  among the sources; section 3 of the specification gives its four fields. The fields
  hold what the code assigns to them: a number for the two point counts, and for
  \<open>msBeforeNext\<close> whatever value sits in the reply.
\<close>

record RateLimiterRes =
  consumedPoints :: jsval
  isFirstInDuration :: bool
  remainingPoints :: jsval
  msBeforeNext :: jsval

datatype error =
    ConnectionNotReady
  | StoreCommandError string
  | TypeError

text \<open>
  Lines 73 to 79 of \<open>_getRateLimiterRes\<close>: the result built from the two extracted
  values. \<open>quota\<close> is \<open>this.points\<close>.
\<close>

definition makeRes :: "int \<Rightarrow> int \<Rightarrow> jsval \<Rightarrow> jsval \<Rightarrow> RateLimiterRes" where
  "makeRes quota changedPoints consumed resTtlMs =
     (let cp = parseInt consumed in
      \<lparr> consumedPoints = cp,
        isFirstInDuration = js_strict_eq_num cp changedPoints,
        remainingPoints = js_max (js_sub (JNum quota) cp) (JNum 0),
        msBeforeNext = resTtlMs \<rparr>)"

text \<open>
  \<open>_getRateLimiterRes(rlKey, changedPoints, result)\<close> (the key is not used). The reply
  is destructured into its first two positions; when the first is an array, both
  positions are replaced by their second element.
\<close>

definition getRateLimiterRes :: "int \<Rightarrow> int \<Rightarrow> jsval \<Rightarrow> error + RateLimiterRes" where
  "getRateLimiterRes quota changedPoints result =
     (case js_iter result of
        None \<Rightarrow> Inl TypeError
      | Some xs \<Rightarrow>
          (let consumed = js_nth xs 0; resTtlMs = js_nth xs 1 in
           if isArray consumed then
             (case js_iter consumed of
                None \<Rightarrow> Inl TypeError
              | Some cs \<Rightarrow>
                  (case js_iter resTtlMs of
                     None \<Rightarrow> Inl TypeError
                   | Some ts \<Rightarrow> Inr (makeRes quota changedPoints (js_nth cs 1) (js_nth ts 1))))
           else Inr (makeRes quota changedPoints consumed resTtlMs)))"

section \<open>The store\<close>

text \<open>
  Modelled from the spec: the store is an external collaborator and not among the
  sources; its commands are modelled as sections 3, 4.2 and 6 of the specification and
  the Redis command reference describe them. A key holds an integer and, optionally,
  the milliseconds it still has to live (always positive). Counters are signed 64-bit
  integers: \<open>INCRBY\<close> answers an error, and changes nothing, when the increment, the
  value held or the sum is not one. Commands take no time.
\<close>

type_synonym key = string
type_synonym entry = "int \<times> nat option"
type_synonym store = "key \<Rightarrow> entry option"

definition int64 :: "int \<Rightarrow> bool" where
  "int64 n = (- (2 ^ 63) \<le> n \<and> n < 2 ^ 63)"

text \<open>Time passing: \<open>d\<close> milliseconds later, keys whose time has run out are gone.\<close>

definition tick :: "nat \<Rightarrow> store \<Rightarrow> store" where
  "tick d s = (\<lambda>k. case s k of
                     None \<Rightarrow> None
                   | Some (v, None) \<Rightarrow> Some (v, None)
                   | Some (v, Some t) \<Rightarrow> if t \<le> d then None else Some (v, Some (t - d)))"

datatype rcmd =
    SET key int "int option" bool
  | INCRBY key int
  | PTTL key
  | GET key
  | EXPIRE key int
  | DEL key

text \<open>\<open>DEL k\<close>: the number of keys removed.\<close>

definition redis_del :: "key \<Rightarrow> store \<Rightarrow> int \<times> store" where
  "redis_del k s = (case s k of None \<Rightarrow> (0, s) | Some e \<Rightarrow> (1, s(k := None)))"

text \<open>
  One command on the store; the reply is the value the client hands to JavaScript, an
  error reply being an \<open>Error\<close> object. \<open>SET k v ex nx\<close> is \<open>SET k v [EX ex] [NX]\<close>.
\<close>

fun redis_call :: "rcmd \<Rightarrow> store \<Rightarrow> jsval \<times> store" where
  "redis_call (SET k v ex nx) s =
     (case ex of
        Some sec \<Rightarrow>
          if sec \<le> 0 then (JErr ''ERR invalid expire time in set'', s)
          else if nx \<and> s k \<noteq> None then (JNull, s)
          else (JStr ''OK'', s(k \<mapsto> (v, Some (nat (1000 * sec)))))
      | None \<Rightarrow>
          if nx \<and> s k \<noteq> None then (JNull, s)
          else (JStr ''OK'', s(k \<mapsto> (v, None))))"
| "redis_call (INCRBY k n) s =
     (if \<not> int64 n then (JErr ''ERR value is not an integer or out of range'', s)
      else
        (case s k of
           None \<Rightarrow> (JNum n, s(k \<mapsto> (n, None)))
         | Some (v, t) \<Rightarrow>
             if \<not> int64 v then (JErr ''ERR value is not an integer or out of range'', s)
             else if \<not> int64 (v + n) then (JErr ''ERR increment or decrement would overflow'', s)
             else (JNum (v + n), s(k \<mapsto> (v + n, t)))))"
| "redis_call (PTTL k) s =
     (case s k of
        None \<Rightarrow> (JNum (- 2), s)
      | Some (v, None) \<Rightarrow> (JNum (- 1), s)
      | Some (v, Some t) \<Rightarrow> (JNum (int t), s))"
| "redis_call (GET k) s =
     (case s k of
        None \<Rightarrow> (JNull, s)
      | Some (v, t) \<Rightarrow> (JStr (show_int v), s))"
| "redis_call (EXPIRE k sec) s =
     (case s k of
        None \<Rightarrow> (JNum 0, s)
      | Some (v, t) \<Rightarrow>
          if sec \<le> 0 then (JNum 1, s(k := None))
          else (JNum 1, s(k \<mapsto> (v, Some (nat (1000 * sec))))))"
| "redis_call (DEL k) s = (case redis_del k s of (n, s1) \<Rightarrow> (JNum n, s1))"

text \<open>
  A batch (\<open>MULTI ... EXEC\<close>): the queued commands run one after the other with nothing
  in between, and the replies come back together.
\<close>

fun run_batch :: "rcmd list \<Rightarrow> store \<Rightarrow> jsval list \<times> store" where
  "run_batch [] s = ([], s)"
| "run_batch (c # cs) s =
     (case redis_call c s of
        (r, s1) \<Rightarrow> (case run_batch cs s1 of (rs, s2) \<Rightarrow> (r # rs, s2)))"

subsection \<open>The script\<close>

text \<open>
  \<open>incrTtlLuaScript\<close> (lines 4 to 12), with \<open>KEYS[1]\<close>, \<open>ARGV[1]\<close> and \<open>ARGV[2]\<close> as
  \<open>k\<close>, \<open>pts\<close> and \<open>sec\<close>. \<open>redis.call\<close> raises on an error reply, which ends the
  script with that error (\<open>Inl\<close>); what ran before stays done. The returned table of two
  numbers reaches JavaScript as an array.
\<close>

definition incrTtlLuaScript :: "key \<Rightarrow> int \<Rightarrow> int \<Rightarrow> store \<Rightarrow> (string + jsval) \<times> store" where
  "incrTtlLuaScript k pts sec s0 =
     (case redis_call (SET k 0 (Some sec) True) s0 of
        (JErr e, s1) \<Rightarrow> (Inl e, s1)
      | (r1, s1) \<Rightarrow>
     (case redis_call (INCRBY k pts) s1 of
        (JErr e, s2) \<Rightarrow> (Inl e, s2)
      | (consumed, s2) \<Rightarrow>
     (case redis_call (PTTL k) s2 of
        (JErr e, s3) \<Rightarrow> (Inl e, s3)
      | (ttl, s3) \<Rightarrow>
          if ttl = JNum (- 1) then
            (case redis_call (EXPIRE k sec) s3 of
               (JErr e, s4) \<Rightarrow> (Inl e, s4)
             | (r4, s4) \<Rightarrow> (Inr (JArr [consumed, JNum (1000 * sec)]), s4))
          else (Inr (JArr [consumed, ttl]), s3))))"

text \<open>
  The script texts the model knows (there is one), and the arguments of a script call.
  The server splits the arguments after the first \<open>numkeys\<close> into \<open>KEYS\<close> and \<open>ARGV\<close>.
\<close>

datatype lua_source = IncrTtlLuaSource

datatype lua_arg = LStr string | LNum int

fun nth_opt :: "'a list \<Rightarrow> nat \<Rightarrow> 'a option" where
  "nth_opt [] i = None"
| "nth_opt (x # xs) 0 = Some x"
| "nth_opt (x # xs) (Suc i) = nth_opt xs i"

definition run_lua :: "lua_source \<Rightarrow> nat \<Rightarrow> lua_arg list \<Rightarrow> store \<Rightarrow> (string + jsval) \<times> store" where
  "run_lua src numkeys args s =
     (case src of
        IncrTtlLuaSource \<Rightarrow>
          (let KEYS = take numkeys args; ARGV = drop numkeys args in
           case (nth_opt KEYS 0, nth_opt ARGV 0, nth_opt ARGV 1) of
             (Some (LStr k), Some (LNum pts), Some (LNum sec)) \<Rightarrow> incrTtlLuaScript k pts sec s
           | _ \<Rightarrow> (Inl ''ERR Error running script'', s)))"

section \<open>The store client\<close>

text \<open>
  Modelled from the spec: the client library is external too (sections 4.6 and 6 of the
  specification). What it sends to the store is a batch, a call of a custom command by
  name, an evaluation of a script text, or a single command.
\<close>

datatype command =
    EXEC "rcmd list"
  | CUSTOM string "lua_arg list"
  | EVAL lua_source nat "lua_arg list"
  | SINGLE rcmd

text \<open>
  The client object, as far as the code looks at it: \<open>status\<close> is \<open>client.status\<close>
  (\<open>undefined\<close> when the client has none); \<open>isReady\<close> is \<open>None\<close> when
  \<open>client.isReady\<close> is not a function and \<open>Some b\<close> when it is one that returns \<open>b\<close>;
  \<open>hasDefineCommand\<close> says whether \<open>client.defineCommand\<close> is a function;
  \<open>commands\<close> holds the custom commands defined so far, a name being a function of the
  client exactly when it is in there; \<open>wrapsReplies\<close> says whether the client returns
  each reply of a batch as an \<open>[err, value]\<close> pair; \<open>linkError\<close> is the transport
  failure every call meets, if any. \<open>db\<close> is the store behind the connection and
  \<open>sent\<close> the commands sent so far.
\<close>

record client =
  status :: jsval
  isReady :: "bool option"
  hasDefineCommand :: bool
  commands :: "string \<Rightarrow> (nat \<times> lua_source) option"
  wrapsReplies :: bool
  linkError :: "string option"
  db :: store
  sent :: "command list"

definition elapse :: "nat \<Rightarrow> client \<Rightarrow> client" where
  "elapse d c = c\<lparr>db := tick d (db c)\<rparr>"

definition wrap_reply :: "jsval \<Rightarrow> jsval" where
  "wrap_reply r = (case r of JErr e \<Rightarrow> JArr [JErr e, JUndefined] | _ \<Rightarrow> JArr [JNull, r])"

text \<open>The replies of a batch as the client hands them over: as they are, or each tagged.\<close>

definition batch_reply :: "client \<Rightarrow> jsval list \<Rightarrow> jsval" where
  "batch_reply c rs = JArr (if wrapsReplies c then map wrap_reply rs else rs)"

text \<open>\<open>client.multi(). ... .exec(cb)\<close>: the callback's \<open>(err, res)\<close> as a sum.\<close>

definition client_exec :: "rcmd list \<Rightarrow> client \<Rightarrow> (error + jsval) \<times> client" where
  "client_exec cmds c =
     (let c1 = c\<lparr>sent := sent c @ [EXEC cmds]\<rparr> in
      case linkError c of
        Some e \<Rightarrow> (Inl (StoreCommandError e), c1)
      | None \<Rightarrow>
          (case run_batch cmds (db c) of
             (rs, s) \<Rightarrow> (Inr (batch_reply c rs), c1\<lparr>db := s\<rparr>)))"


definition script_result :: "(string + jsval) \<times> store \<Rightarrow> client \<Rightarrow> (error + jsval) \<times> client" where
  "script_result out c =
     (case out of
        (Inl e, s) \<Rightarrow> (Inl (StoreCommandError e), c\<lparr>db := s\<rparr>)
      | (Inr r, s) \<Rightarrow> (Inr r, c\<lparr>db := s\<rparr>))"

text \<open>A call of a custom command, \<open>client[name](args..., cb)\<close>.\<close>

definition client_custom :: "string \<Rightarrow> lua_arg list \<Rightarrow> client \<Rightarrow> (error + jsval) \<times> client" where
  "client_custom name args c =
     (case commands c name of
        None \<Rightarrow> (Inl TypeError, c)
      | Some (numberOfKeys, lua) \<Rightarrow>
          (let c1 = c\<lparr>sent := sent c @ [CUSTOM name args]\<rparr> in
           case linkError c of
             Some e \<Rightarrow> (Inl (StoreCommandError e), c1)
           | None \<Rightarrow> script_result (run_lua lua numberOfKeys args (db c)) c1))"

text \<open>\<open>client.eval(script, numkeys, args..., cb)\<close>.\<close>

definition client_eval :: "lua_source \<Rightarrow> nat \<Rightarrow> lua_arg list \<Rightarrow> client \<Rightarrow> (error + jsval) \<times> client" where
  "client_eval lua numkeys args c =
     (let c1 = c\<lparr>sent := sent c @ [EVAL lua numkeys args]\<rparr> in
      case linkError c of
        Some e \<Rightarrow> (Inl (StoreCommandError e), c1)
      | None \<Rightarrow> script_result (run_lua lua numkeys args (db c)) c1)"

text \<open>
  \<open>client.del(key, cb)\<close>. The reply of \<open>DEL\<close> is an integer reply, which the client
  hands over as a number: the count of keys removed.
\<close>

definition client_del :: "key \<Rightarrow> client \<Rightarrow> (error + int) \<times> client" where
  "client_del k c =
     (let c1 = c\<lparr>sent := sent c @ [SINGLE (DEL k)]\<rparr> in
      case linkError c of
        Some e \<Rightarrow> (Inl (StoreCommandError e), c1)
      | None \<Rightarrow> (case redis_del k (db c) of (n, s) \<Rightarrow> (Inr n, c1\<lparr>db := s\<rparr>)))"

section \<open>RateLimiterRedis\<close>


record limiter =
  client :: client
  rejectIfRedisNotReady :: bool
  points :: int


definition isRedisReady :: "limiter \<Rightarrow> bool" where
  "isRedisReady rl =
     (if \<not> rejectIfRedisNotReady rl then True
      else if js_truthy (status (client rl)) \<and> status (client rl) \<noteq> JStr ''ready'' then False
      else if (case isReady (client rl) of None \<Rightarrow> False | Some b \<Rightarrow> \<not> b) then False
      else True)"

text \<open>
  \<open>_upsert(rlKey, points, msDuration, forceExpire)\<close>. The promise is the sum: \<open>Inl\<close> for
  a rejection, \<open>Inr\<close> for the value it resolves to. The client comes back with what was
  sent and what the store holds afterwards. (\<open>this.client.multi()\<close> on line 89 only
  creates the local batch object; a batch is sent by \<open>exec\<close>.)
\<close>

definition upsert :: "limiter \<Rightarrow> key \<Rightarrow> int \<Rightarrow> int \<Rightarrow> bool \<Rightarrow> (error + jsval) \<times> client" where
  "upsert rl rlKey pts msDuration forceExpire =
     (if \<not> isRedisReady rl then (Inl ConnectionNotReady, client rl)
      else
        (let secDuration = msDuration div 1000 in
         if forceExpire then
           (if secDuration > 0
            then client_exec [SET rlKey pts (Some secDuration) False, PTTL rlKey] (client rl)
            else client_exec [SET rlKey pts None False, PTTL rlKey] (client rl))
         else
           (if secDuration > 0 then
              (if commands (client rl) ''rlflxIncr'' \<noteq> None
               then client_custom ''rlflxIncr'' [LStr rlKey, LNum pts, LNum secDuration] (client rl)
               else client_eval IncrTtlLuaSource 1 [LStr rlKey, LNum pts, LNum secDuration] (client rl))
            else client_exec [INCRBY rlKey pts, PTTL rlKey] (client rl))))"

text \<open>
  \<open>_get(rlKey)\<close>: \<open>null\<close> when the first position of the reply is \<open>null\<close>, and else
  the reply as it is. (The reply of a batch is always an array; destructuring anything
  that cannot be iterated would throw.)
\<close>

definition get :: "limiter \<Rightarrow> key \<Rightarrow> (error + jsval) \<times> client" where
  "get rl rlKey =
     (if \<not> isRedisReady rl then (Inl ConnectionNotReady, client rl)
      else
        (case client_exec [GET rlKey, PTTL rlKey] (client rl) of
           (Inl err, c) \<Rightarrow> (Inl err, c)
         | (Inr res, c) \<Rightarrow>
             (case js_iter res of
                None \<Rightarrow> (Inl TypeError, c)
              | Some xs \<Rightarrow> if js_nth xs 0 = JNull then (Inr JNull, c) else (Inr res, c))))"

text \<open>\<open>_delete(rlKey)\<close>: resolves to \<open>res > 0\<close>, \<open>res\<close> being the count.\<close>

definition delete :: "limiter \<Rightarrow> key \<Rightarrow> (error + bool) \<times> client" where
  "delete rl rlKey =
     (case client_del rlKey (client rl) of
        (Inl err, c) \<Rightarrow> (Inl err, c)
      | (Inr res, c) \<Rightarrow> (Inr (res > 0), c))"

text \<open>
  Modelled from the spec: the caller of \<open>_upsert\<close> and \<open>_get\<close> in the absent base class
  passes the resolved reply to \<open>_getRateLimiterRes\<close> (section 4.3: the output of either
  path is passed to the normalizer); a rejection stays a rejection.
\<close>

definition normalized :: "limiter \<Rightarrow> int \<Rightarrow> (error + jsval) \<Rightarrow> error + RateLimiterRes" where
  "normalized rl changedPoints out =
     (case out of
        Inl err \<Rightarrow> Inl err
      | Inr reply \<Rightarrow> getRateLimiterRes (points rl) changedPoints reply)"

section \<open>Driving the adapter\<close>

text \<open>
  A sequence of accumulating upserts on one key with one duration, each after a delay:
  every step is \<open>(delay, points)\<close>. The results are the normalized replies.
\<close>

fun repeat_upsert ::
  "limiter \<Rightarrow> key \<Rightarrow> int \<Rightarrow> (nat \<times> int) list \<Rightarrow> (error + RateLimiterRes) list \<times> limiter" where
  "repeat_upsert rl k ms [] = ([], rl)"
| "repeat_upsert rl k ms ((d, p) # steps) =
     (case upsert (rl\<lparr>client := elapse d (client rl)\<rparr>) k p ms False of
        (out, c) \<Rightarrow>
          (case repeat_upsert (rl\<lparr>client := c\<rparr>) k ms steps of
             (rs, rl2) \<Rightarrow> (normalized rl p out # rs, rl2)))"

text \<open>The running totals of a list of points on top of a starting value.\<close>

fun running_totals :: "int \<Rightarrow> int list \<Rightarrow> int list" where
  "running_totals v [] = []"
| "running_totals v (p # ps) = (v + p) # running_totals (v + p) ps"

text \<open>The counter a key holds, an absent key counting as zero.\<close>

definition counter_of :: "store \<Rightarrow> key \<Rightarrow> int" where
  "counter_of s k = (case s k of None \<Rightarrow> 0 | Some (v, t) \<Rightarrow> v)"

text \<open>Whether a key is absent or has no expiry.\<close>

definition unexpiring :: "store \<Rightarrow> key \<Rightarrow> bool" where
  "unexpiring s k = (case s k of None \<Rightarrow> True | Some (v, t) \<Rightarrow> t = None)"

text \<open>
  Whether the name \<open>rlflxIncr\<close> on the client, if there is one, is the command the
  constructor defines.
\<close>

definition registered_ok :: "client \<Rightarrow> bool" where
  "registered_ok c =
     (case commands c ''rlflxIncr'' of None \<Rightarrow> True | Some e \<Rightarrow> e = (1, IncrTtlLuaSource))"

text \<open>
  Two test doubles on an empty store: a client that returns the replies of a batch as
  they are and reports its health through \<open>isReady()\<close>, and one that tags each reply of a
  batch, has a \<open>status\<close> field and can define custom commands.
\<close>

definition flat_client :: client where
  "flat_client =
     \<lparr> status = JUndefined, isReady = Some True, hasDefineCommand = False,
       commands = (\<lambda>n. None), wrapsReplies = False, linkError = None,
       db = (\<lambda>k. None), sent = [] \<rparr>"

definition tagging_client :: client where
  "tagging_client =
     \<lparr> status = JStr ''ready'', isReady = None, hasDefineCommand = True,
       commands = (\<lambda>n. None), wrapsReplies = True, linkError = None,
       db = (\<lambda>k. None), sent = [] \<rparr>"

section \<open>Facts about the JavaScript helpers\<close>

text \<open>Printing an integer and reading it back with \<open>parseInt\<close> gives the integer.\<close>


lemma digit_char_val: "d < 10 \<Longrightarrow> digit_val (digit_char d) = Some d"
  by (simp add: digit_val_def digit_char_def)

lemma digit_char_is_digit: "d < 10 \<Longrightarrow> is_digit_in 10 (digit_char d)"
  by (simp add: is_digit_in_def digit_char_val)

lemma digit_char_not_space: "d < 10 \<Longrightarrow> \<not> is_js_space (digit_char d)"
  by (simp add: is_js_space_def digit_char_def)

lemma digit_char_of_char: "d < 10 \<Longrightarrow> of_char (digit_char d) = 48 + d"
  by (simp add: digit_char_def)

lemma digits_of_all: "\<forall>c \<in> set (digits_of n). is_digit_in 10 c"
proof (induction n rule: digits_of.induct)
  case (1 n)
  show ?case
  proof (cases "n < 10")
    case True
    then show ?thesis by (subst digits_of.simps) (simp add: digit_char_is_digit)
  next
    case False
    with 1 show ?thesis by (subst digits_of.simps) (simp add: digit_char_is_digit)
  qed
qed

lemma digits_of_nonempty: "digits_of n \<noteq> []"
  by (subst digits_of.simps) simp

lemma digits_value_snoc: "digits_value r (ds @ [c]) = digits_value r ds * r + (case digit_val c of None \<Rightarrow> 0 | Some d \<Rightarrow> d)"
  by (simp add: digits_value_def)

lemma digits_value_digits_of: "digits_value 10 (digits_of n) = n"
proof (induction n rule: digits_of.induct)
  case (1 n)
  show ?case
  proof (cases "n < 10")
    case True
    then show ?thesis by (subst digits_of.simps) (simp add: digits_value_def digit_char_val)
  next
    case False
    with 1 show ?thesis by (subst digits_of.simps) (simp add: digits_value_snoc digit_char_val)
  qed
qed


lemma digit_in_10_props:
  assumes "is_digit_in 10 c"
  shows "c \<noteq> CHR ''x''" "c \<noteq> CHR ''X''" "c \<noteq> CHR ''-''" "c \<noteq> CHR ''+''" "\<not> is_js_space c"
  using assms by (auto simp: is_digit_in_def digit_val_def is_js_space_def Let_def split: if_splits)

lemma takeWhile_digits_of: "takeWhile (is_digit_in 10) (digits_of n) = digits_of n"
  using digits_of_all [of n] by (simp add: takeWhile_eq_all_conv)

lemma parse_digits_digits_of:
  "parse_digits neg (digits_of n) = JNum (if neg then - int n else int n)"
proof -
  have no_hex: "(case digits_of n of
            c0 # c1 # rest \<Rightarrow>
              if c0 = CHR ''0'' \<and> (c1 = CHR ''x'' \<or> c1 = CHR ''X'') then (16::nat, rest) else (10, digits_of n)
          | _ \<Rightarrow> (10, digits_of n)) = (10, digits_of n)"
  proof (cases "digits_of n")
    case Nil
    then show ?thesis by simp
  next
    case (Cons c0 t)
    show ?thesis
    proof (cases t)
      case Nil
      with Cons show ?thesis by simp
    next
      case (Cons c1 rest)
      with \<open>digits_of n = c0 # t\<close> have "c1 \<in> set (digits_of n)" by simp
      with digits_of_all have "is_digit_in 10 c1" by blast
      then have "c1 \<noteq> CHR ''x''" "c1 \<noteq> CHR ''X''" by (rule digit_in_10_props)+
      with Cons \<open>digits_of n = c0 # t\<close> show ?thesis by simp
    qed
  qed
  show ?thesis
    unfolding parse_digits_def no_hex
    by (simp add: takeWhile_digits_of digits_of_nonempty digits_value_digits_of)
qed

lemma parseInt_digits_of: "parseInt (JStr (digits_of n)) = JNum (int n)"
proof (cases "digits_of n")
  case Nil
  with digits_of_nonempty show ?thesis by blast
next
  case (Cons c cs)
  then have "c \<in> set (digits_of n)" by simp
  with digits_of_all have d: "is_digit_in 10 c" by blast
  have "parseInt (JStr (digits_of n)) = parse_digits False (c # cs)"
    using Cons digit_in_10_props [OF d] by (simp add: parseInt_def)
  also have "\<dots> = JNum (int n)"
    using parse_digits_digits_of [of False n] Cons by simp
  finally show ?thesis .
qed

lemma minus_not_space: "\<not> is_js_space CHR ''-''"
  by (simp add: is_js_space_def)

lemma parseInt_show_int: "parseInt (JStr (show_int n)) = JNum n"
proof (cases "n < 0")
  case True
  then show ?thesis
    by (simp add: show_int_def parseInt_def minus_not_space parse_digits_digits_of)
next
  case False
  then show ?thesis
    by (simp add: show_int_def parseInt_digits_of)
qed

lemma parseInt_JNum: "parseInt (JNum n) = JNum n"
  using parseInt_show_int [of n] by (simp add: parseInt_def)

lemma parseInt_OK: "parseInt (JStr ''OK'') = JNaN"
  by (simp add: parseInt_def parse_digits_def is_js_space_def is_digit_in_def digit_val_def)

lemma parseInt_JNull: "parseInt JNull = JNaN"
  by (simp add: parseInt_def parse_digits_def is_js_space_def is_digit_in_def digit_val_def)

lemma parse_digits_cases: "(\<exists>n. parse_digits neg s = JNum n) \<or> parse_digits neg s = JNaN"
  by (simp add: parse_digits_def Let_def split: prod.splits)

lemma parseInt_cases: "(\<exists>n. parseInt x = JNum n) \<or> parseInt x = JNaN"
proof -
  have "(\<exists>n. (case l of [] \<Rightarrow> JNaN
                | c # cs \<Rightarrow> if c = CHR ''-'' then parse_digits True cs
                            else if c = CHR ''+'' then parse_digits False cs
                            else parse_digits False (c # cs)) = JNum n)
        \<or> (case l of [] \<Rightarrow> JNaN
                | c # cs \<Rightarrow> if c = CHR ''-'' then parse_digits True cs
                            else if c = CHR ''+'' then parse_digits False cs
                            else parse_digits False (c # cs)) = JNaN" for l
    by (cases l) (simp_all add: parse_digits_cases)
  then show ?thesis unfolding parseInt_def .
qed


lemma safe_int_int64: "safe_int n \<Longrightarrow> int64 n"
  by (simp add: safe_int_def int64_def MAX_SAFE_INTEGER_def)

lemma exact_resultD:
  assumes "exact_result q c"
  shows "safe_int q" "safe_int c" "safe_int (q - c)"
  using assms by (simp_all add: exact_result_def)

lemma int64_zero: "int64 0"
  by (simp add: int64_def)

lemma upsert_not_ready:
  "\<not> isRedisReady rl \<Longrightarrow> upsert rl k pts ms force = (Inl ConnectionNotReady, client rl)"
  by (simp add: upsert_def)

lemma get_not_ready:
  "\<not> isRedisReady rl \<Longrightarrow> get rl k = (Inl ConnectionNotReady, client rl)"
  by (simp add: get_def)




lemma sent_client_del: "sent (snd (client_del k c)) = sent c @ [SINGLE (DEL k)]"
  by (simp add: client_del_def Let_def split: option.splits prod.splits)

section \<open>The readiness gate\<close>


text \<open>
  Claim C1: with fast-fail mode on and a connection that reports itself not
  operational, every operation (upsert, get and delete) rejects at once with
  \<open>ConnectionNotReady\<close> and sends nothing. \<open>_upsert\<close> and \<open>_get\<close> do so
  (\<open>upsert_not_ready\<close>, \<open>get_not_ready\<close>); \<open>_delete\<close> never asks the gate. Here the
  client's \<open>status\<close> is \<open>end\<close> and fast-fail mode is on: the gate says not ready, yet
  \<open>delete\<close> sends \<open>DEL\<close> and resolves to \<open>false\<close>.
\<close>
theorem delete_skips_readiness_gate:
  "\<not> isRedisReady \<lparr> client = tagging_client\<lparr>status := JStr ''end''\<rparr>, rejectIfRedisNotReady = True, points = 10 \<rparr>
   \<and> fst (delete \<lparr> client = tagging_client\<lparr>status := JStr ''end''\<rparr>, rejectIfRedisNotReady = True, points = 10 \<rparr> ''k'') = Inr False
   \<and> sent (snd (delete \<lparr> client = tagging_client\<lparr>status := JStr ''end''\<rparr>, rejectIfRedisNotReady = True, points = 10 \<rparr> ''k'')) = [SINGLE (DEL ''k'')]"
  by (simp add: isRedisReady_def delete_def client_del_def redis_del_def tagging_client_def)

section \<open>The branches of upsert\<close>





section \<open>The reply normalizer\<close>


text \<open>
  Claim C4, as the code has it: the normalizer looks at the first position only. A
  reply with both positions wrapped as \<open>(metadata, value)\<close> pairs gives the same result
  as the flat reply of the two values, whenever the consumed value is not itself an array.
\<close>
theorem normalizer_flat_eq_wrapped:
  assumes "\<not> isArray c"
  shows "getRateLimiterRes q p (JArr [JArr [m1, c], JArr [m2, t]]) = getRateLimiterRes q p (JArr [c, t])
       \<and> getRateLimiterRes q p (JArr [c, t]) = Inr (makeRes q p c t)"
  using assms by (simp add: getRateLimiterRes_def)

text \<open>
  Claim C4 at the replies \<open>(5, 9000)\<close> and \<open>((null, 5), (null, 9000))\<close>.
\<close>
theorem normalizer_flat_eq_wrapped_witness:
  "\<not> isArray (JNum 5)
   \<and> getRateLimiterRes 10 5 (JArr [JArr [JNull, JNum 5], JArr [JNull, JNum 9000]])
       = getRateLimiterRes 10 5 (JArr [JNum 5, JNum 9000])
   \<and> getRateLimiterRes 10 5 (JArr [JNum 5, JNum 9000]) = Inr (makeRes 10 5 (JNum 5) (JNum 9000))"
  using normalizer_flat_eq_wrapped [of "JNum 5" 10 5 JNull JNull "JNum 9000"] by simp

text \<open>
  Claim C4 as stated (each position unwrapped on its own) fails on mixed replies: with
  only the second position wrapped, \<open>msBeforeNext\<close> is the pair and not 9000; with only
  the first wrapped, destructuring the number 9000 throws.
\<close>
theorem normalizer_mixed_counterexample:
  "getRateLimiterRes 10 5 (JArr [JNum 5, JNum 9000])
     = Inr \<lparr> consumedPoints = JNum 5, isFirstInDuration = True, remainingPoints = JNum 5, msBeforeNext = JNum 9000 \<rparr>
   \<and> getRateLimiterRes 10 5 (JArr [JNum 5, JArr [JNull, JNum 9000]])
     = Inr \<lparr> consumedPoints = JNum 5, isFirstInDuration = True, remainingPoints = JNum 5,
             msBeforeNext = JArr [JNull, JNum 9000] \<rparr>
   \<and> getRateLimiterRes 10 5 (JArr [JArr [JNull, JNum 5], JNum 9000]) = Inl TypeError"
  by (simp add: getRateLimiterRes_def makeRes_def parseInt_JNum Let_def)

section \<open>Facts about the store and the client\<close>

lemma tick_unexpiring: "unexpiring s k \<Longrightarrow> tick d s k = s k"
  by (auto simp: unexpiring_def tick_def split: option.splits)



lemma isRedisReady_client_update:
  "status c = status (client rl) \<Longrightarrow> isReady c = isReady (client rl)
   \<Longrightarrow> isRedisReady (rl\<lparr>client := c\<rparr>) = isRedisReady rl"
  by (simp add: isRedisReady_def)

text \<open>The normalizer on a batch reply of two numbers, flat or tagged.\<close>

lemma normalized_batch_pair:
  "normalized rl p (Inr (batch_reply c [JNum n, JNum t]))
     = Inr \<lparr> consumedPoints = JNum n, isFirstInDuration = (n = p),
             remainingPoints = JNum (max (points rl - n) 0), msBeforeNext = JNum t \<rparr>"
  by (simp add: normalized_def batch_reply_def getRateLimiterRes_def makeRes_def wrap_reply_def
      parseInt_JNum Let_def)

lemma normalized_flat_pair:
  "normalized rl p (Inr (JArr [JNum n, JNum t]))
     = Inr \<lparr> consumedPoints = JNum n, isFirstInDuration = (n = p),
             remainingPoints = JNum (max (points rl - n) 0), msBeforeNext = JNum t \<rparr>"
  by (simp add: normalized_def getRateLimiterRes_def makeRes_def parseInt_JNum Let_def)

lemma seconds_positive: "(0 < ms div 1000) = (1000 \<le> (ms::int))"
  by (simp add: pos_imp_zdiv_pos_iff)

text \<open>An accumulating upsert of a second or more: the script, by either call.\<close>

lemma upsert_script:
  assumes "isRedisReady rl" "linkError (client rl) = None" "1000 \<le> ms"
    and "registered_ok (client rl)"
    and "incrTtlLuaScript k p (ms div 1000) (db (client rl)) = (Inr r, s')"
  shows "upsert rl k p ms False =
     (Inr r, (client rl)\<lparr>sent := sent (client rl) @
                 [if commands (client rl) ''rlflxIncr'' \<noteq> None
                  then CUSTOM ''rlflxIncr'' [LStr k, LNum p, LNum (ms div 1000)]
                  else EVAL IncrTtlLuaSource 1 [LStr k, LNum p, LNum (ms div 1000)]],
               db := s'\<rparr>)"
proof -
  have sec: "0 < ms div 1000"
    using assms(3) by (simp add: seconds_positive)
  show ?thesis
  proof (cases "commands (client rl) ''rlflxIncr''")
    case None
    with assms(1,2,5) sec show ?thesis
      by (simp add: upsert_def client_eval_def script_result_def run_lua_def Let_def)
  next
    case (Some e)
    with assms(4) have e: "e = (1, IncrTtlLuaSource)"
      by (simp add: registered_ok_def)
    from assms(1,2,5) sec Some e show ?thesis
      by (simp add: upsert_def client_custom_def script_result_def run_lua_def Let_def)
  qed
qed

text \<open>A forced upsert.\<close>

lemma upsert_forced:
  assumes "isRedisReady rl" "linkError (client rl) = None"
  shows "upsert rl k p ms True =
     (Inr (batch_reply (client rl) [JStr ''OK'', JNum (if 1000 \<le> ms then 1000 * (ms div 1000) else - 1)]),
      (client rl)\<lparr>sent := sent (client rl) @
                 [if 1000 \<le> ms then EXEC [SET k p (Some (ms div 1000)) False, PTTL k]
                  else EXEC [SET k p None False, PTTL k]],
               db := (db (client rl))(k \<mapsto> (p, if 1000 \<le> ms then Some (nat (1000 * (ms div 1000))) else None))\<rparr>)"
  using assms
  by (auto simp: upsert_def client_exec_def seconds_positive Let_def)

text \<open>Reading a key.\<close>

lemma get_present:
  assumes "isRedisReady rl" "linkError (client rl) = None" "db (client rl) k = Some (v, t)"
  shows "get rl k =
     (Inr (batch_reply (client rl) [JStr (show_int v), JNum (case t of None \<Rightarrow> - 1 | Some t' \<Rightarrow> int t')]),
      (client rl)\<lparr>sent := sent (client rl) @ [EXEC [GET k, PTTL k]], db := db (client rl)\<rparr>)"
  using assms
  by (cases t) (auto simp: get_def client_exec_def batch_reply_def wrap_reply_def Let_def)

lemma get_absent_flat:
  assumes "isRedisReady rl" "linkError (client rl) = None" "db (client rl) k = None"
    and "\<not> wrapsReplies (client rl)"
  shows "fst (get rl k) = Inr JNull"
  using assms
  by (auto simp: get_def client_exec_def batch_reply_def Let_def)

lemma normalized_get_reply:
  "normalized rl p (Inr (batch_reply c [JStr (show_int v), JNum t]))
     = Inr \<lparr> consumedPoints = JNum v, isFirstInDuration = (v = p),
             remainingPoints = JNum (max (points rl - v) 0), msBeforeNext = JNum t \<rparr>"
  by (simp add: normalized_def batch_reply_def getRateLimiterRes_def makeRes_def wrap_reply_def
      parseInt_show_int Let_def)

lemma elapse_fields:
  "status (elapse d c) = status c" "isReady (elapse d c) = isReady c"
  "linkError (elapse d c) = linkError c" "commands (elapse d c) = commands c"
  "wrapsReplies (elapse d c) = wrapsReplies c" "sent (elapse d c) = sent c"
  "db (elapse d c) = tick d (db c)"
  by (simp_all add: elapse_def)

lemma counter_of_upd: "counter_of (s(k \<mapsto> (v, t))) k = v"
  by (simp add: counter_of_def)

lemma unexpiring_upd: "unexpiring (s(k \<mapsto> (v, None))) k"
  by (simp add: unexpiring_def)

lemma counter_of_tick: "unexpiring s k \<Longrightarrow> counter_of (tick d s) k = counter_of s k"
  by (simp add: counter_of_def tick_unexpiring)

lemma unexpiring_tick: "unexpiring s k \<Longrightarrow> unexpiring (tick d s) k"
  by (simp add: unexpiring_def tick_unexpiring)


lemma get_flat_not_found_iff:
  assumes "isRedisReady rl" "linkError (client rl) = None" "\<not> wrapsReplies (client rl)"
  shows "fst (get rl k) = Inr JNull \<longleftrightarrow> db (client rl) k = None"
proof (cases "db (client rl) k")
  case None
  with assms show ?thesis by (simp add: get_absent_flat)
next
  case (Some e)
  obtain v t where "e = (v, t)" by (cases e)
  with Some assms show ?thesis
    by (simp add: get_present batch_reply_def)
qed

text \<open>
  The test double \<open>flat_client\<close> under any limiter.
\<close>
lemma flat_limiter_gate:
  "isRedisReady \<lparr> client = flat_client, rejectIfRedisNotReady = b, points = q \<rparr>"
  "linkError (client \<lparr> client = flat_client, rejectIfRedisNotReady = b, points = q \<rparr>) = None"
  "registered_ok (client \<lparr> client = flat_client, rejectIfRedisNotReady = b, points = q \<rparr>)"
  by (simp_all add: isRedisReady_def flat_client_def registered_ok_def)

lemma flat_limiter_store:
  "db (client \<lparr> client = flat_client, rejectIfRedisNotReady = b, points = q \<rparr>) k = None"
  "unexpiring (db (client \<lparr> client = flat_client, rejectIfRedisNotReady = b, points = q \<rparr>)) k"
  "counter_of (db (client \<lparr> client = flat_client, rejectIfRedisNotReady = b, points = q \<rparr>)) k = 0"
  by (simp_all add: flat_client_def unexpiring_def counter_of_def)

section \<open>Reading a key\<close>


text \<open>
  Claim C8: \<open>get\<close> resolves to "not found" exactly when the key is absent. With a
  client that returns the replies of a batch as they are this holds
  (\<open>get_flat_not_found_iff\<close>). With a client that tags each reply, the first position of
  the reply for an absent key is the pair \<open>(null, null)\<close>, which is not \<open>null\<close>: \<open>_get\<close>
  resolves to the whole reply, and the normalizer makes \<open>consumedPoints = NaN\<close> of it.
\<close>
theorem get_absent_with_tagged_replies:
  "db tagging_client ''k'' = None
   \<and> fst (get \<lparr> client = tagging_client, rejectIfRedisNotReady = False, points = 10 \<rparr> ''k'')
       = Inr (JArr [JArr [JNull, JNull], JArr [JNull, JNum (- 2)]])
   \<and> normalized \<lparr> client = tagging_client, rejectIfRedisNotReady = False, points = 10 \<rparr> 0
       (fst (get \<lparr> client = tagging_client, rejectIfRedisNotReady = False, points = 10 \<rparr> ''k''))
       = Inr \<lparr> consumedPoints = JNaN, isFirstInDuration = False, remainingPoints = JNaN, msBeforeNext = JNum (- 2) \<rparr>"
  by (simp add: get_def isRedisReady_def client_exec_def batch_reply_def wrap_reply_def tagging_client_def
      normalized_def getRateLimiterRes_def makeRes_def parseInt_JNull Let_def)

section \<open>The two ways to call the script\<close>






section \<open>Facts about accumulation\<close>

lemma script_on_absent:
  assumes "0 < sec" "s k = None" "int64 pts"
  shows "incrTtlLuaScript k pts sec s
       = (Inr (JArr [JNum pts, JNum (1000 * sec)]), s(k \<mapsto> (pts, Some (nat (1000 * sec)))))"
  using assms by (simp add: incrTtlLuaScript_def int64_zero)

lemma script_on_live:
  assumes "0 < sec" "s k = Some (v, Some t)" "int64 pts" "int64 v" "int64 (v + pts)"
  shows "incrTtlLuaScript k pts sec s
       = (Inr (JArr [JNum (v + pts), JNum (int t)]), s(k \<mapsto> (v + pts, Some t)))"
  using assms by (simp add: incrTtlLuaScript_def)

lemma script_on_unexpiring:
  assumes "0 < sec" "s k = Some (v, None)" "int64 pts" "int64 v" "int64 (v + pts)"
  shows "incrTtlLuaScript k pts sec s
       = (Inr (JArr [JNum (v + pts), JNum (1000 * sec)]), s(k \<mapsto> (v + pts, Some (nat (1000 * sec)))))"
  using assms by (simp add: incrTtlLuaScript_def)

text \<open>Whatever the key holds, the script adds the points to the counter.\<close>

lemma script_accumulates:
  assumes "0 < sec" "int64 pts" "int64 (counter_of s k)" "int64 (counter_of s k + pts)"
  shows "\<exists>t s'. incrTtlLuaScript k pts sec s = (Inr (JArr [JNum (counter_of s k + pts), JNum t]), s')"
proof (cases "s k")
  case None
  then have "counter_of s k = 0" by (simp add: counter_of_def)
  with script_on_absent [where s = s and k = k, OF assms(1) None assms(2)] show ?thesis by simp
next
  case (Some e)
  obtain v t where e: "e = (v, t)" by (cases e)
  with Some have c: "counter_of s k = v" by (simp add: counter_of_def)
  show ?thesis
  proof (cases t)
    case None
    with Some e have h: "s k = Some (v, None)" by simp
    from script_on_unexpiring [where s = s and k = k, OF assms(1) h assms(2)] assms(3,4) c
    show ?thesis by simp
  next
    case (Some t')
    with \<open>s k = Some e\<close> e have h: "s k = Some (v, Some t')" by simp
    from script_on_live [where s = s and k = k, OF assms(1) h assms(2)] assms(3,4) c
    show ?thesis by simp
  qed
qed

text \<open>So does the batch of \<open>INCRBY\<close> and \<open>PTTL\<close>.\<close>

lemma incrby_batch:
  assumes "linkError c = None" "int64 p" "int64 (counter_of (db c) k)" "int64 (counter_of (db c) k + p)"
  shows "fst (client_exec [INCRBY k p, PTTL k] c)
             = Inr (batch_reply c [JNum (counter_of (db c) k + p),
                                   JNum (case db c k of Some (v, Some t) \<Rightarrow> int t | _ \<Rightarrow> - 1)])"
proof (cases "db c k")
  case None
  with assms show ?thesis
    by (simp add: client_exec_def counter_of_def Let_def)
next
  case (Some e)
  obtain v t where e: "e = (v, t)" by (cases e)
  with Some assms show ?thesis
    by (cases t) (simp_all add: client_exec_def counter_of_def Let_def)
qed

text \<open>An accumulating upsert below one second, on a key without expiry.\<close>

lemma upsert_incrby_unexpiring:
  assumes "isRedisReady rl" "linkError (client rl) = None" "ms < 1000"
    and "unexpiring (db (client rl)) k"
    and "int64 p" "int64 (counter_of (db (client rl)) k)" "int64 (counter_of (db (client rl)) k + p)"
  shows "upsert rl k p ms False =
     (Inr (batch_reply (client rl) [JNum (counter_of (db (client rl)) k + p), JNum (- 1)]),
      (client rl)\<lparr>sent := sent (client rl) @ [EXEC [INCRBY k p, PTTL k]],
                  db := (db (client rl))(k \<mapsto> (counter_of (db (client rl)) k + p, None))\<rparr>)"
proof -
  have sec: "\<not> 0 < ms div 1000"
    using assms(3) by (simp add: seconds_positive)
  show ?thesis
    using assms(1,2,4,5,6,7) sec
    by (cases "db (client rl) k")
       (auto simp: upsert_def client_exec_def counter_of_def unexpiring_def batch_reply_def Let_def)
qed

text \<open>
  An accumulating upsert, whatever the duration and whatever the key holds: the counter
  plus the points comes back, and it is first in the duration when the counter was 0.
\<close>

lemma upsert_accumulates:
  assumes "isRedisReady rl" "linkError (client rl) = None" "registered_ok (client rl)"
    and "int64 pts" "int64 (counter_of (db (client rl)) k)" "int64 (counter_of (db (client rl)) k + pts)"
  shows "\<exists>t. normalized rl pts (fst (upsert rl k pts ms False))
     = Inr \<lparr> consumedPoints = JNum (counter_of (db (client rl)) k + pts),
             isFirstInDuration = (counter_of (db (client rl)) k = 0),
             remainingPoints = JNum (max (points rl - (counter_of (db (client rl)) k + pts)) 0),
             msBeforeNext = JNum t \<rparr>"
proof (cases "1000 \<le> ms")
  case True
  then have sec: "0 < ms div 1000" by (simp add: seconds_positive)
  from script_accumulates [OF sec assms(4,5,6)] obtain t s'
    where run: "incrTtlLuaScript k pts (ms div 1000) (db (client rl))
                  = (Inr (JArr [JNum (counter_of (db (client rl)) k + pts), JNum t]), s')"
    by blast
  show ?thesis
    by (simp add: upsert_script [OF assms(1,2) True assms(3) run] normalized_flat_pair)
next
  case False
  then have sec: "\<not> 0 < ms div 1000" by (simp add: seconds_positive)
  note run = incrby_batch [OF assms(2,4,5,6)]
  have "fst (upsert rl k pts ms False) = fst (client_exec [INCRBY k pts, PTTL k] (client rl))"
    using assms(1) sec by (simp add: upsert_def Let_def)
  then show ?thesis
    by (simp add: run normalized_batch_pair)
qed


lemma safe_small: "\<bar>n\<bar> \<le> 1000000 \<Longrightarrow> safe_int n"
  by (auto simp: safe_int_def MAX_SAFE_INTEGER_def)


text \<open>A key with an expiry under a limiter on the flat test double.\<close>

lemma flat_limiter_with_key:
  "isRedisReady \<lparr> client = flat_client\<lparr>db := (db flat_client)(k \<mapsto> e)\<rparr>, rejectIfRedisNotReady = b, points = q \<rparr>"
  "linkError (client \<lparr> client = flat_client\<lparr>db := (db flat_client)(k \<mapsto> e)\<rparr>, rejectIfRedisNotReady = b, points = q \<rparr>) = None"
  "registered_ok (client \<lparr> client = flat_client\<lparr>db := (db flat_client)(k \<mapsto> e)\<rparr>, rejectIfRedisNotReady = b, points = q \<rparr>)"
  by (simp_all add: isRedisReady_def flat_client_def registered_ok_def)

section \<open>Forced upsert\<close>

text \<open>
  Claim C2, as the code has it: on a ready connection, with the points, the quota and
  the duration safe integers, an upsert with \<open>forceExpire\<close> sends \<open>SET\<close> then \<open>PTTL\<close> as
  one batch and overwrites the counter with \<open>points\<close> whatever the key held, so that a
  following \<open>get\<close> normalizes to \<open>consumedPoints = points\<close>. The key's time to live
  becomes \<open>1000 * floor(msDuration / 1000)\<close> when \<open>msDuration\<close> is at least 1000, and the
  expiry is removed below that. The batch's own reply is \<open>(OK, ttl)\<close>.
\<close>
theorem forced_upsert_overwrites:
  assumes "isRedisReady rl" "linkError (client rl) = None"
    and "exact_result (points rl) pts" "safe_int changed" "safe_int ms"
  shows "fst (upsert rl k pts ms True)
           = Inr (batch_reply (client rl) [JStr ''OK'', JNum (if 1000 \<le> ms then 1000 * (ms div 1000) else - 1)])
       \<and> sent (snd (upsert rl k pts ms True))
           = sent (client rl) @ [if 1000 \<le> ms then EXEC [SET k pts (Some (ms div 1000)) False, PTTL k]
                                 else EXEC [SET k pts None False, PTTL k]]
       \<and> db (snd (upsert rl k pts ms True))
           = (db (client rl))(k \<mapsto> (pts, if 1000 \<le> ms then Some (nat (1000 * (ms div 1000))) else None))
       \<and> normalized rl changed (fst (get (rl\<lparr>client := snd (upsert rl k pts ms True)\<rparr>) k))
           = Inr \<lparr> consumedPoints = JNum pts, isFirstInDuration = (pts = changed),
                   remainingPoints = JNum (max (points rl - pts) 0),
                   msBeforeNext = JNum (if 1000 \<le> ms then 1000 * (ms div 1000) else - 1) \<rparr>"
proof -
  let ?c = "snd (upsert rl k pts ms True)"
  let ?rl = "rl\<lparr>client := ?c\<rparr>"
  note up = upsert_forced [OF assms(1,2), of k pts ms]
  have ready: "isRedisReady ?rl"
    using assms(1) by (simp add: up isRedisReady_client_update)
  have link: "linkError (client ?rl) = None"
    using assms(2) by (simp add: up)
  have held: "db (client ?rl) k = Some (pts, if 1000 \<le> ms then Some (nat (1000 * (ms div 1000))) else None)"
    by (simp add: up)
  have wr: "batch_reply ?c = batch_reply (client rl)"
    by (rule ext) (simp add: up batch_reply_def)
  have "normalized rl changed (fst (get ?rl k))
      = normalized rl changed (Inr (batch_reply (client rl)
          [JStr (show_int pts), JNum (if 1000 \<le> ms then 1000 * (ms div 1000) else - 1)]))"
    by (simp add: get_present [OF ready link held] wr)
  then show ?thesis
    by (simp add: up normalized_get_reply)
qed

text \<open>
  Claim C2 at 5 points for 2500 milliseconds on an empty store.
\<close>
theorem forced_upsert_overwrites_witness:
  "isRedisReady \<lparr> client = flat_client, rejectIfRedisNotReady = True, points = 10 \<rparr>
   \<and> linkError flat_client = None
   \<and> exact_result 10 5 \<and> safe_int 0 \<and> safe_int 2500
   \<and> fst (upsert \<lparr> client = flat_client, rejectIfRedisNotReady = True, points = 10 \<rparr> ''k'' 5 2500 True)
       = Inr (JArr [JStr ''OK'', JNum 2000])
   \<and> db (snd (upsert \<lparr> client = flat_client, rejectIfRedisNotReady = True, points = 10 \<rparr> ''k'' 5 2500 True)) ''k''
       = Some (5, Some 2000)
   \<and> normalized \<lparr> client = flat_client, rejectIfRedisNotReady = True, points = 10 \<rparr> 0
        (fst (get (\<lparr> client = flat_client, rejectIfRedisNotReady = True, points = 10 \<rparr>
                    \<lparr>client := snd (upsert \<lparr> client = flat_client, rejectIfRedisNotReady = True, points = 10 \<rparr>
                                       ''k'' 5 2500 True)\<rparr>) ''k''))
       = Inr \<lparr> consumedPoints = JNum 5, isFirstInDuration = False, remainingPoints = JNum 5,
               msBeforeNext = JNum 2000 \<rparr>"
proof -
  have r: "isRedisReady \<lparr> client = flat_client, rejectIfRedisNotReady = True, points = 10 \<rparr>"
    by (simp add: isRedisReady_def flat_client_def)
  have l: "linkError (client \<lparr> client = flat_client, rejectIfRedisNotReady = True, points = 10 \<rparr>) = None"
    by (simp add: flat_client_def)
  have e: "exact_result (points \<lparr> client = flat_client, rejectIfRedisNotReady = True, points = 10 \<rparr>) 5"
    by (simp add: exact_result_def safe_small)
  have s: "safe_int 0" "safe_int 2500"
    by (simp_all add: safe_small)
  have w: "\<not> wrapsReplies flat_client" "db flat_client ''k'' = None"
    by (simp_all add: flat_client_def)
  show ?thesis
    using r l e s w forced_upsert_overwrites [OF r l e s, of "''k''"]
    by (simp add: batch_reply_def)
qed

text \<open>
  Claim C2 as stated fails at 5 points for 500 milliseconds: the key is left without
  expiry (\<open>msBeforeNext\<close> is \<open>-1\<close>, not 500), and the normalizer reads the reply \<open>OK\<close>
  of \<open>SET\<close> as \<open>NaN\<close>, so that \<open>isFirstInDuration\<close> is false.
\<close>
theorem forced_upsert_counterexample:
  "normalized \<lparr> client = flat_client, rejectIfRedisNotReady = False, points = 10 \<rparr> 5
     (fst (upsert \<lparr> client = flat_client, rejectIfRedisNotReady = False, points = 10 \<rparr> ''k'' 5 500 True))
     = Inr \<lparr> consumedPoints = JNaN, isFirstInDuration = False, remainingPoints = JNaN, msBeforeNext = JNum (- 1) \<rparr>
   \<and> sent (snd (upsert \<lparr> client = flat_client, rejectIfRedisNotReady = False, points = 10 \<rparr> ''k'' 5 500 True))
     = [EXEC [SET ''k'' 5 None False, PTTL ''k'']]
   \<and> db (snd (upsert \<lparr> client = flat_client, rejectIfRedisNotReady = False, points = 10 \<rparr> ''k'' 5 500 True)) ''k''
     = Some (5, None)"
proof -
  have r: "isRedisReady \<lparr> client = flat_client, rejectIfRedisNotReady = False, points = 10 \<rparr>"
    by (simp add: isRedisReady_def)
  have l: "linkError (client \<lparr> client = flat_client, rejectIfRedisNotReady = False, points = 10 \<rparr>) = None"
    by (simp add: flat_client_def)
  show ?thesis
    unfolding upsert_forced [OF r l]
    by (simp add: batch_reply_def flat_client_def normalized_def
        getRateLimiterRes_def makeRes_def parseInt_OK Let_def)
qed


section \<open>Accumulating upsert\<close>




text \<open>
  Claim C7, as the code has it: on a ready connection, on a key that is absent or has no
  expiry, with the points, the running totals and the quota safe integers, any number of
  accumulating upserts with a duration of 0, whatever time passes between them, each
  send one batch of \<open>INCRBY\<close> then \<open>PTTL\<close>; the results carry the running totals and
  \<open>msBeforeNext = -1\<close>, and the key ends with the sum and still without expiry.
\<close>
theorem zero_duration_accumulates:
  assumes "isRedisReady rl" "linkError (client rl) = None" "unexpiring (db (client rl)) k"
    and "safe_int (counter_of (db (client rl)) k)"
    and "list_all safe_int (map snd steps)"
    and "list_all (exact_result (points rl)) (running_totals (counter_of (db (client rl)) k) (map snd steps))"
  shows "fst (repeat_upsert rl k 0 steps)
           = map (\<lambda>((d, p), total).
                    Inr \<lparr> consumedPoints = JNum total, isFirstInDuration = (total = p),
                          remainingPoints = JNum (max (points rl - total) 0),
                          msBeforeNext = JNum (- 1) \<rparr>)
               (zip steps (running_totals (counter_of (db (client rl)) k) (map snd steps)))
       \<and> sent (client (snd (repeat_upsert rl k 0 steps)))
           = sent (client rl) @ map (\<lambda>(d, p). EXEC [INCRBY k p, PTTL k]) steps
       \<and> counter_of (db (client (snd (repeat_upsert rl k 0 steps)))) k
           = counter_of (db (client rl)) k + sum_list (map snd steps)
       \<and> unexpiring (db (client (snd (repeat_upsert rl k 0 steps)))) k"
  using assms
proof (induction steps arbitrary: rl)
  case Nil
  then show ?case by simp
next
  case (Cons step steps)
  obtain d p where step: "step = (d, p)" by (cases step)
  let ?v = "counter_of (db (client rl)) k"
  let ?rl1 = "rl\<lparr>client := elapse d (client rl)\<rparr>"
  have sp: "safe_int p" and tot: "exact_result (points rl) (?v + p)"
    and rest: "list_all safe_int (map snd steps)"
      "list_all (exact_result (points rl)) (running_totals (?v + p) (map snd steps))"
    using Cons.prems(5,6) by (simp_all add: step)
  have r1: "isRedisReady ?rl1"
    using Cons.prems(1) by (simp add: isRedisReady_client_update elapse_fields)
  have l1: "linkError (client ?rl1) = None"
    using Cons.prems(2) by (simp add: elapse_fields)
  have x1: "unexpiring (db (client ?rl1)) k"
    using Cons.prems(3) by (simp add: elapse_fields unexpiring_tick)
  have v1: "counter_of (db (client ?rl1)) k = ?v"
    using Cons.prems(3) by (simp add: elapse_fields counter_of_tick)
  have i1: "int64 p" "int64 (counter_of (db (client ?rl1)) k)" "int64 (counter_of (db (client ?rl1)) k + p)"
    using sp Cons.prems(4) exact_resultD(2) [OF tot] v1 by (simp_all add: safe_int_int64)
  note up = upsert_incrby_unexpiring [OF r1 l1 _ x1 i1, of 0, simplified v1, simplified]
  let ?c = "snd (upsert ?rl1 k p 0 False)"
  let ?rl2 = "rl\<lparr>client := ?c\<rparr>"
  have r2: "isRedisReady ?rl2"
    using Cons.prems(1) by (simp add: up isRedisReady_client_update elapse_fields)
  have l2: "linkError (client ?rl2) = None"
    using Cons.prems(2) by (simp add: up elapse_fields)
  have x2: "unexpiring (db (client ?rl2)) k"
    by (simp add: up unexpiring_upd)
  have v2: "counter_of (db (client ?rl2)) k = ?v + p"
    by (simp add: up counter_of_upd)
  have s2: "sent (client ?rl2) = sent (client rl) @ [EXEC [INCRBY k p, PTTL k]]"
    by (simp add: up elapse_fields)
  have sv2: "safe_int (counter_of (db (client ?rl2)) k)"
    using exact_resultD(2) [OF tot] v2 by simp
  have rest2: "list_all (exact_result (points ?rl2)) (running_totals (counter_of (db (client ?rl2)) k) (map snd steps))"
    using rest(2) v2 by simp
  have out: "normalized rl p (fst (upsert ?rl1 k p 0 False))
      = Inr \<lparr> consumedPoints = JNum (?v + p),
              isFirstInDuration = (?v + p = p),
              remainingPoints = JNum (max (points rl - (?v + p)) 0),
              msBeforeNext = JNum (- 1) \<rparr>"
    by (simp add: up normalized_batch_pair)
  note ih = Cons.IH [OF r2 l2 x2 sv2 rest(1) rest2, unfolded v2 s2]
  have unfold: "repeat_upsert rl k 0 (step # steps)
      = (normalized rl p (fst (upsert ?rl1 k p 0 False)) # fst (repeat_upsert ?rl2 k 0 steps),
         snd (repeat_upsert ?rl2 k 0 steps))"
    by (simp add: step split: prod.splits)
  show ?case
    unfolding unfold
    using ih out by (simp add: step)
qed

text \<open>
  Claim C7 at 1 then, five seconds later, 2 points on an empty store.
\<close>
theorem zero_duration_accumulates_witness:
  "isRedisReady \<lparr> client = flat_client, rejectIfRedisNotReady = True, points = 10 \<rparr>
   \<and> linkError flat_client = None \<and> unexpiring (db flat_client) ''k''
   \<and> safe_int (counter_of (db flat_client) ''k'')
   \<and> list_all safe_int (map snd [(0::nat, 1), (5000, 2)])
   \<and> list_all (exact_result 10) (running_totals (counter_of (db flat_client) ''k'') (map snd [(0::nat, 1), (5000, 2)]))
   \<and> fst (repeat_upsert \<lparr> client = flat_client, rejectIfRedisNotReady = True, points = 10 \<rparr> ''k'' 0 [(0, 1), (5000, 2)])
     = [Inr \<lparr> consumedPoints = JNum 1, isFirstInDuration = True, remainingPoints = JNum 9, msBeforeNext = JNum (- 1) \<rparr>,
        Inr \<lparr> consumedPoints = JNum 3, isFirstInDuration = False, remainingPoints = JNum 7, msBeforeNext = JNum (- 1) \<rparr>]
   \<and> sent (client (snd (repeat_upsert \<lparr> client = flat_client, rejectIfRedisNotReady = True, points = 10 \<rparr> ''k'' 0 [(0, 1), (5000, 2)])))
     = [EXEC [INCRBY ''k'' 1, PTTL ''k''], EXEC [INCRBY ''k'' 2, PTTL ''k'']]"
proof -
  let ?rl = "\<lparr> client = flat_client, rejectIfRedisNotReady = True, points = 10 \<rparr>"
  note f = flat_limiter_gate [of True 10] flat_limiter_store [of True 10 "''k''"]
  have a: "safe_int (counter_of (db (client ?rl)) ''k'')"
    using f(6) by (simp add: safe_small)
  have b: "list_all safe_int (map snd [(0::nat, 1), (5000, 2)])"
    by (simp add: safe_small)
  have c: "list_all (exact_result (points ?rl)) (running_totals (counter_of (db (client ?rl)) ''k'') (map snd [(0::nat, 1), (5000, 2)]))"
    using f(6) by (simp add: exact_result_def safe_small)
  note z = zero_duration_accumulates [OF f(1) f(2) f(5) a b c, unfolded f(6)]
  have s: "sent flat_client = []"
    by (simp add: flat_client_def)
  from z have
    "fst (repeat_upsert ?rl ''k'' 0 [(0, 1), (5000, 2)])
     = [Inr \<lparr> consumedPoints = JNum 1, isFirstInDuration = True, remainingPoints = JNum 9, msBeforeNext = JNum (- 1) \<rparr>,
        Inr \<lparr> consumedPoints = JNum 3, isFirstInDuration = False, remainingPoints = JNum 7, msBeforeNext = JNum (- 1) \<rparr>]"
    by simp
  moreover from z have
    "sent (client (snd (repeat_upsert ?rl ''k'' 0 [(0, 1), (5000, 2)])))
     = [EXEC [INCRBY ''k'' 1, PTTL ''k''], EXEC [INCRBY ''k'' 2, PTTL ''k'']]"
    by (simp add: s)
  ultimately show ?thesis
    using f a b c by simp
qed

text \<open>
  Claim C7 as stated (for every key) fails on a key that has an expiry. An upsert of 1
  point for 3000 milliseconds leaves the key with 3000 milliseconds to live; an upsert
  of 2 points with duration 0 then answers \<open>msBeforeNext = 3000\<close>, not \<open>-1\<close>, and 3000
  milliseconds later the key is gone and the counter starts again at the 5 points added.
\<close>
theorem zero_duration_counterexample:
  "db (snd (upsert \<lparr> client = flat_client, rejectIfRedisNotReady = False, points = 10 \<rparr> ''k'' 1 3000 False)) ''k''
     = Some (1, Some 3000)
   \<and> fst (repeat_upsert
            \<lparr> client = flat_client\<lparr>db := (db flat_client)(''k'' \<mapsto> (1, Some 3000))\<rparr>,
              rejectIfRedisNotReady = False, points = 10 \<rparr> ''k'' 0 [(0, 2), (3000, 5)])
     = [Inr \<lparr> consumedPoints = JNum 3, isFirstInDuration = False, remainingPoints = JNum 7, msBeforeNext = JNum 3000 \<rparr>,
        Inr \<lparr> consumedPoints = JNum 5, isFirstInDuration = True, remainingPoints = JNum 5, msBeforeNext = JNum (- 1) \<rparr>]"
  by (simp add: upsert_def isRedisReady_def client_eval_def client_exec_def script_result_def run_lua_def
      incrTtlLuaScript_def elapse_def tick_def batch_reply_def normalized_def getRateLimiterRes_def
      makeRes_def parseInt_JNum int64_def flat_client_def Let_def)


section \<open>The result invariant\<close>

lemma normalizer_on_integer:
  "getRateLimiterRes q p (JArr [JNum n, t]) = Inr \<lparr> consumedPoints = JNum n, isFirstInDuration = (n = p),
       remainingPoints = JNum (max (q - n) 0), msBeforeNext = t \<rparr>"
  "getRateLimiterRes q p (JArr [JStr (show_int n), t]) = Inr \<lparr> consumedPoints = JNum n, isFirstInDuration = (n = p),
       remainingPoints = JNum (max (q - n) 0), msBeforeNext = t \<rparr>"
  "getRateLimiterRes q p (JArr [JArr [m1, JNum n], JArr [m2, t]]) = Inr \<lparr> consumedPoints = JNum n,
       isFirstInDuration = (n = p), remainingPoints = JNum (max (q - n) 0), msBeforeNext = t \<rparr>"
  "getRateLimiterRes q p (JArr [JArr [m1, JStr (show_int n)], JArr [m2, t]]) = Inr \<lparr> consumedPoints = JNum n,
       isFirstInDuration = (n = p), remainingPoints = JNum (max (q - n) 0), msBeforeNext = t \<rparr>"
  by (simp_all add: getRateLimiterRes_def makeRes_def parseInt_JNum parseInt_show_int Let_def)

text \<open>
  Claim C6, as the code has it. Every result built from a reply whose consumed position
  is an integer \<open>n\<close>, as a number or printed, flat or wrapped, has \<open>consumedPoints = n\<close>,
  \<open>remainingPoints = max(quota - consumedPoints, 0)\<close>, and \<open>isFirstInDuration\<close> exactly
  when \<open>consumedPoints\<close> equals the points of the call; the quota, \<open>n\<close>, their
  difference and the points are safe integers. For an accumulating upsert, on a ready
  connection whose \<open>rlflxIncr\<close> command, if any, is the one the constructor defines,
  \<open>consumedPoints\<close> is the counter before the call plus the points, and
  \<open>isFirstInDuration\<close> holds exactly when that counter was absent or 0: a key that
  holds 0 counts as first as well.
\<close>
theorem result_invariant:
  assumes "isRedisReady rl" "linkError (client rl) = None" "registered_ok (client rl)"
    and "exact_result quota n" "safe_int changedPoints"
    and "safe_int pts" "safe_int (counter_of (db (client rl)) k)"
    and "exact_result (points rl) (counter_of (db (client rl)) k + pts)"
  shows "getRateLimiterRes quota changedPoints (JArr [JNum n, t])
           = Inr \<lparr> consumedPoints = JNum n, isFirstInDuration = (n = changedPoints),
                   remainingPoints = JNum (max (quota - n) 0), msBeforeNext = t \<rparr>
       \<and> getRateLimiterRes quota changedPoints (JArr [JStr (show_int n), t])
           = Inr \<lparr> consumedPoints = JNum n, isFirstInDuration = (n = changedPoints),
                   remainingPoints = JNum (max (quota - n) 0), msBeforeNext = t \<rparr>
       \<and> getRateLimiterRes quota changedPoints (JArr [JArr [m1, JNum n], JArr [m2, t]])
           = Inr \<lparr> consumedPoints = JNum n, isFirstInDuration = (n = changedPoints),
                   remainingPoints = JNum (max (quota - n) 0), msBeforeNext = t \<rparr>
       \<and> getRateLimiterRes quota changedPoints (JArr [JArr [m1, JStr (show_int n)], JArr [m2, t]])
           = Inr \<lparr> consumedPoints = JNum n, isFirstInDuration = (n = changedPoints),
                   remainingPoints = JNum (max (quota - n) 0), msBeforeNext = t \<rparr>
       \<and> (\<exists>ttl. normalized rl pts (fst (upsert rl k pts ms False))
              = Inr \<lparr> consumedPoints = JNum (counter_of (db (client rl)) k + pts),
                      isFirstInDuration = (counter_of (db (client rl)) k = 0),
                      remainingPoints = JNum (max (points rl - (counter_of (db (client rl)) k + pts)) 0),
                      msBeforeNext = JNum ttl \<rparr>)"
proof -
  have i: "int64 pts" "int64 (counter_of (db (client rl)) k)" "int64 (counter_of (db (client rl)) k + pts)"
    using assms(6,7) exact_resultD(2) [OF assms(8)] by (simp_all add: safe_int_int64)
  from upsert_accumulates [OF assms(1,2,3) i] normalizer_on_integer [where q = quota and p = changedPoints and n = n]
  show ?thesis by simp
qed

text \<open>
  Claim C6 at the replies \<open>(12, 700)\<close> and \<open>("12", 700)\<close> with a quota of 10 and 3 points
  added, and at an upsert of 3 points on a key that holds 4 with 900 milliseconds left.
\<close>
theorem result_invariant_witness:
  "isRedisReady \<lparr> client = flat_client\<lparr>db := (db flat_client)(''k'' \<mapsto> (4, Some 900))\<rparr>,
      rejectIfRedisNotReady = True, points = 10 \<rparr>
   \<and> linkError (flat_client\<lparr>db := (db flat_client)(''k'' \<mapsto> (4, Some 900))\<rparr>) = None
   \<and> registered_ok (flat_client\<lparr>db := (db flat_client)(''k'' \<mapsto> (4, Some 900))\<rparr>)
   \<and> exact_result 10 12 \<and> safe_int 3 \<and> safe_int 4 \<and> exact_result 10 (4 + 3)
   \<and> getRateLimiterRes 10 3 (JArr [JNum 12, JNum 700])
       = Inr \<lparr> consumedPoints = JNum 12, isFirstInDuration = False, remainingPoints = JNum 0, msBeforeNext = JNum 700 \<rparr>
   \<and> getRateLimiterRes 10 3 (JArr [JStr (show_int 12), JNum 700])
       = Inr \<lparr> consumedPoints = JNum 12, isFirstInDuration = False, remainingPoints = JNum 0, msBeforeNext = JNum 700 \<rparr>
   \<and> (\<exists>ttl. normalized \<lparr> client = flat_client\<lparr>db := (db flat_client)(''k'' \<mapsto> (4, Some 900))\<rparr>,
                     rejectIfRedisNotReady = True, points = 10 \<rparr> 3
          (fst (upsert \<lparr> client = flat_client\<lparr>db := (db flat_client)(''k'' \<mapsto> (4, Some 900))\<rparr>,
                     rejectIfRedisNotReady = True, points = 10 \<rparr> ''k'' 3 0 False))
       = Inr \<lparr> consumedPoints = JNum 7, isFirstInDuration = False, remainingPoints = JNum 3,
               msBeforeNext = JNum ttl \<rparr>)"
proof -
  let ?c = "flat_client\<lparr>db := (db flat_client)(''k'' \<mapsto> (4, Some 900))\<rparr>"
  let ?rl = "\<lparr> client = ?c, rejectIfRedisNotReady = True, points = 10 \<rparr>"
  note f = flat_limiter_with_key [of "''k''" "(4, Some 900)" True 10]
  have v: "counter_of (db (client ?rl)) ''k'' = 4"
    by (simp add: counter_of_def)
  have e: "exact_result 10 12" "safe_int 3"
    by (simp_all add: exact_result_def safe_small)
  have p: "safe_int 3" "safe_int (counter_of (db (client ?rl)) ''k'')"
    "exact_result (points ?rl) (counter_of (db (client ?rl)) ''k'' + 3)"
    using v by (simp_all add: exact_result_def safe_small)
  note r = result_invariant [OF f e p, where t = "JNum 700" and ms = 0, unfolded v]
  have s: "safe_int 4" "exact_result 10 (4 + 3)"
    by (simp_all add: exact_result_def safe_small)
  from r f e s show ?thesis
    by simp
qed

text \<open>
  Claim C6 as stated fails in its reading of \<open>isFirstInDuration\<close> as "the counter had no
  prior value": on a key that holds 0 with 900 milliseconds left, an upsert of 3 points
  gives \<open>consumedPoints = 3\<close> and \<open>isFirstInDuration = true\<close>.
\<close>
theorem first_in_duration_counterexample:
  "db (flat_client\<lparr>db := (db flat_client)(''k'' \<mapsto> (0, Some 900))\<rparr>) ''k'' = Some (0, Some 900)
   \<and> normalized \<lparr> client = flat_client\<lparr>db := (db flat_client)(''k'' \<mapsto> (0, Some 900))\<rparr>,
                   rejectIfRedisNotReady = False, points = 10 \<rparr> 3
        (fst (upsert \<lparr> client = flat_client\<lparr>db := (db flat_client)(''k'' \<mapsto> (0, Some 900))\<rparr>,
                       rejectIfRedisNotReady = False, points = 10 \<rparr> ''k'' 3 0 False))
     = Inr \<lparr> consumedPoints = JNum 3, isFirstInDuration = True, remainingPoints = JNum 7,
             msBeforeNext = JNum 900 \<rparr>"
  by (simp add: upsert_def isRedisReady_def client_exec_def batch_reply_def normalized_def
      getRateLimiterRes_def makeRes_def parseInt_JNum int64_def flat_client_def Let_def)

section \<open>A client the gate does not know\<close>



end
